theory Spec2Isabelle
  imports Complex_Main "HOL-Library.Sublist"
begin

section \<open>Track Splitter: the board, the tracks and the settings\<close>

text \<open>
  The development embeds \<^verbatim>\<open>TrackSplitterPlugin.split_tracks\<close> of
  \<^verbatim>\<open>track_splitter_plugin.py\<close>. The layout editor's library \<^verbatim>\<open>pcbnew\<close> and the
  widget library \<^verbatim>\<open>wx\<close> are not part of the repository; the model keeps of them what
  \<^verbatim>\<open>split_tracks\<close> calls:
  \<^item> a \<^verbatim>\<open>VECTOR2I\<close> is a pair of integers (the library's 32-bit range is not modelled);
  \<^item> a track is a record of the five fields the plugin reads and sets;
  \<^item> the board is a store: every track and group lives under a handle (its object
    identity), so that \<^verbatim>\<open>board.Remove(track)\<close> removes that object and no other;
  \<^item> \<^verbatim>\<open>wx.MessageBox\<close> is the outcome value returned with the board;
  \<^item> a Python float is a \<^typ>\<open>real\<close>: the arithmetic is exact, the rounding of IEEE
    doubles is not modelled, and \<^verbatim>\<open>round\<close> is Python 3's round-half-to-even.
\<close>

type_synonym VECTOR2I = "int \<times> int"

type_synonym handle = nat

record TRACK =
  Start :: VECTOR2I
  End :: VECTOR2I
  Width :: int
  NetCode :: int
  Layer :: int

record BOARD =
  tracks :: "(handle \<times> TRACK) list"
  groups :: "(handle \<times> handle list) list"
  nets :: "int \<Rightarrow> string"
  fresh :: handle

text \<open>The dictionary \<^verbatim>\<open>settings\<close>, one field for each of its four keys.\<close>

record settings =
  settings_net_name :: string
  settings_split_width :: real
  settings_internal_sep :: real
  settings_num_splits :: int

datatype py_error = ZeroDivisionError

text \<open>
  The three message boxes of \<^verbatim>\<open>split_tracks\<close>:
  \<^item> \<open>At_least_one_split\<close>: "Number of splits must be at least 1.";
  \<^item> \<open>No_tracks_found n\<close>: "No straight tracks found on net 'n'.";
  \<^item> \<open>Summary p c n\<close>: "Processed p original track segments. Created c new tracks for
    net 'n'. ...".
\<close>

datatype message = At_least_one_split | No_tracks_found string | Summary nat nat string

datatype icon = ICON_ERROR | ICON_INFORMATION

datatype outcome = MessageBox message string icon | Raised py_error

subsection \<open>The board's operations\<close>

definition GetTracks :: "BOARD \<Rightarrow> (handle \<times> TRACK) list" where
  "GetTracks board = tracks board"

definition GetNetname :: "BOARD \<Rightarrow> TRACK \<Rightarrow> string" where
  "GetNetname board track = nets board (NetCode track)"

text \<open>\<^verbatim>\<open>new_group = pcbnew.GROUP(board); board.Add(new_group)\<close>: a new, empty group.\<close>

definition Add_GROUP :: "BOARD \<Rightarrow> handle \<times> BOARD" where
  "Add_GROUP board =
     (fresh board,
      board\<lparr>groups := groups board @ [(fresh board, [])], fresh := Suc (fresh board)\<rparr>)"

text \<open>
  \<^verbatim>\<open>t = pcbnew.TRACK(board); ...; board.Add(t)\<close>: a new track object on the board. Where
  the library's container puts it is the library's matter; the model puts it last. The
  loop goes over the list \<^verbatim>\<open>tracks_to_process\<close>, built before, so that the place has no
  effect on it.
\<close>

definition Add_TRACK :: "BOARD \<Rightarrow> TRACK \<Rightarrow> handle \<times> BOARD" where
  "Add_TRACK board t =
     (fresh board,
      board\<lparr>tracks := tracks board @ [(fresh board, t)], fresh := Suc (fresh board)\<rparr>)"

definition AddItem :: "BOARD \<Rightarrow> handle \<Rightarrow> handle \<Rightarrow> BOARD" where
  "AddItem board g h =
     board\<lparr>groups := map (\<lambda>(g', ms). if g' = g then (g', ms @ [h]) else (g', ms))
                          (groups board)\<rparr>"

definition Remove :: "BOARD \<Rightarrow> handle \<Rightarrow> BOARD" where
  "Remove board h = board\<lparr>tracks := filter (\<lambda>(h', t). h' \<noteq> h) (tracks board)\<rparr>"

subsection \<open>Python's arithmetic\<close>

text \<open>\<^verbatim>\<open>a / b\<close> on floats raises \<^verbatim>\<open>ZeroDivisionError\<close> when \<^verbatim>\<open>b\<close> is zero.\<close>

definition truediv :: "real \<Rightarrow> real \<Rightarrow> py_error + real" where
  "truediv a b = (if b = 0 then Inl ZeroDivisionError else Inr (a / b))"

text \<open>\<^verbatim>\<open>int(round(x))\<close>: the nearest integer, a tie going to the even one.\<close>

definition py_round :: "real \<Rightarrow> int" where
  "py_round x =
     (let f = \<lfloor>x\<rfloor>; d = x - of_int f
      in if d < 1 / 2 then f else if 1 / 2 < d then f + 1
         else if even f then f else f + 1)"

section \<open>split\_tracks\<close>

subsection \<open>Stage 1: the tracks of the net\<close>

text \<open>
  \<^verbatim>\<open>for track in board.GetTracks(): if track.GetNetname() == original_net_name:
  tracks_to_process.append(track)\<close>
\<close>

fun find_tracks ::
  "BOARD \<Rightarrow> string \<Rightarrow> (handle \<times> TRACK) list \<Rightarrow> (handle \<times> TRACK) list \<Rightarrow> (handle \<times> TRACK) list"
where
  "find_tracks board original_net_name [] tracks_to_process = tracks_to_process"
| "find_tracks board original_net_name (track # rest) tracks_to_process =
     (if GetNetname board (snd track) = original_net_name
      then find_tracks board original_net_name rest (tracks_to_process @ [track])
      else find_tracks board original_net_name rest tracks_to_process)"

subsection \<open>Stage 2: one track\<close>

text \<open>
  \<^verbatim>\<open>offset_iu = -group_width_iu / 2 + i * (split_width_iu + internal_sep_iu) + (split_width_iu / 2)\<close>
\<close>

definition offset_iu :: "int \<Rightarrow> int \<Rightarrow> int \<Rightarrow> int \<Rightarrow> real" where
  "offset_iu group_width_iu split_width_iu internal_sep_iu i =
     real_of_int (- group_width_iu) / 2
       + real_of_int (i * (split_width_iu + internal_sep_iu))
       + real_of_int split_width_iu / 2"

text \<open>The track \<^verbatim>\<open>t\<close> that iteration \<^verbatim>\<open>i\<close> of the inner loop builds.\<close>

definition new_track ::
  "TRACK \<Rightarrow> int \<Rightarrow> int \<Rightarrow> int \<Rightarrow> real \<Rightarrow> real \<Rightarrow> int \<Rightarrow> TRACK"
where
  "new_track track group_width_iu split_width_iu internal_sep_iu shift_vec_x shift_vec_y i =
     (let start_pos = Start track;
          end_pos = End track;
          layer = Layer track;
          net_code = NetCode track;
          offset = offset_iu group_width_iu split_width_iu internal_sep_iu i;
          shift_x = py_round (shift_vec_x * offset);
          shift_y = py_round (shift_vec_y * offset);
          shift = (shift_x, shift_y)
      in \<lparr>Start = (fst start_pos + fst shift, snd start_pos + snd shift),
          End = (fst end_pos + fst shift, snd end_pos + snd shift),
          Width = split_width_iu,
          NetCode = net_code,
          Layer = layer\<rparr>)"

text \<open>
  \<^verbatim>\<open>for i in range(num_splits): ...; board.Add(t); new_group.AddItem(t);
  new_tracks_count += 1\<close>, over the indices still to come.
\<close>

fun split_loop ::
  "TRACK \<Rightarrow> int \<Rightarrow> int \<Rightarrow> int \<Rightarrow> real \<Rightarrow> real \<Rightarrow> handle \<Rightarrow> int list \<Rightarrow> BOARD \<times> nat
     \<Rightarrow> BOARD \<times> nat"
where
  "split_loop track group_width_iu split_width_iu internal_sep_iu shift_vec_x shift_vec_y
     new_group [] st = st"
| "split_loop track group_width_iu split_width_iu internal_sep_iu shift_vec_x shift_vec_y
     new_group (i # rest) (board, new_tracks_count) =
     (let t = new_track track group_width_iu split_width_iu internal_sep_iu
                shift_vec_x shift_vec_y i;
          (h, board1) = Add_TRACK board t;
          board2 = AddItem board1 new_group h
      in split_loop track group_width_iu split_width_iu internal_sep_iu shift_vec_x shift_vec_y
           new_group rest (board2, new_tracks_count + 1))"

text \<open>\<^verbatim>\<open>range(num_splits)\<close>\<close>

definition py_range :: "int \<Rightarrow> int list" where
  "py_range n = map int [0..<nat n]"

text \<open>
  The body of \<^verbatim>\<open>for track in tracks_to_process\<close>. An exception leaves the loop with
  the board as it is at that point.
\<close>

definition split_track ::
  "int \<Rightarrow> int \<Rightarrow> int \<Rightarrow> int \<Rightarrow> BOARD \<times> nat \<Rightarrow> handle \<times> TRACK
     \<Rightarrow> (py_error \<times> BOARD) + (BOARD \<times> nat)"
where
  "split_track num_splits group_width_iu split_width_iu internal_sep_iu st track =
     (let start_pos = Start (snd track);
          end_pos = End (snd track);
          (new_group, board1) = Add_GROUP (fst st);
          direction = (fst end_pos - fst start_pos, snd end_pos - snd start_pos);
          length' = sqrt (real_of_int ((fst direction)\<^sup>2 + (snd direction)\<^sup>2))
      in case truediv (real_of_int (fst direction)) length' of
           Inl e \<Rightarrow> Inl (e, board1)
         | Inr unit_dx \<Rightarrow>
             (case truediv (real_of_int (snd direction)) length' of
                Inl e \<Rightarrow> Inl (e, board1)
              | Inr unit_dy \<Rightarrow>
                  (let shift_vec_x = - unit_dy;
                       shift_vec_y = unit_dx;
                       (board2, new_tracks_count) =
                          split_loop (snd track) group_width_iu split_width_iu internal_sep_iu
                            shift_vec_x shift_vec_y new_group (py_range num_splits)
                            (board1, snd st)
                   in Inr (Remove board2 (fst track), new_tracks_count))))"

text \<open>\<^verbatim>\<open>for track in tracks_to_process: ...\<close>\<close>

fun process_tracks ::
  "int \<Rightarrow> int \<Rightarrow> int \<Rightarrow> int \<Rightarrow> (handle \<times> TRACK) list \<Rightarrow> BOARD \<times> nat
     \<Rightarrow> (py_error \<times> BOARD) + (BOARD \<times> nat)"
where
  "process_tracks num_splits group_width_iu split_width_iu internal_sep_iu [] st = Inr st"
| "process_tracks num_splits group_width_iu split_width_iu internal_sep_iu (track # rest) st =
     (case split_track num_splits group_width_iu split_width_iu internal_sep_iu st track of
        Inl e \<Rightarrow> Inl e
      | Inr st' \<Rightarrow>
          process_tracks num_splits group_width_iu split_width_iu internal_sep_iu rest st')"

subsection \<open>The whole function\<close>

text \<open>
  \<^verbatim>\<open>group_width_iu = (split_width_iu * num_splits) + (internal_sep_iu * (num_splits - 1))\<close>
\<close>

definition group_width :: "int \<Rightarrow> int \<Rightarrow> int \<Rightarrow> int" where
  "group_width num_splits split_width_iu internal_sep_iu =
     (split_width_iu * num_splits) + (internal_sep_iu * (num_splits - 1))"

text \<open>
  \<open>FromMM\<close> is \<^verbatim>\<open>pcbnew.FromMM\<close>, the library's conversion of millimetres to the
  board's integer unit; it is a parameter.
\<close>

definition split_tracks :: "(real \<Rightarrow> int) \<Rightarrow> BOARD \<Rightarrow> settings \<Rightarrow> outcome \<times> BOARD" where
  "split_tracks FromMM board s =
     (let original_net_name = settings_net_name s;
          num_splits = settings_num_splits s
      in if num_splits < 1
         then (MessageBox At_least_one_split ''Error'' ICON_ERROR, board)
         else
           (let split_width_iu = FromMM (settings_split_width s);
                internal_sep_iu = FromMM (settings_internal_sep s);
                group_width_iu = group_width num_splits split_width_iu internal_sep_iu;
                tracks_to_process = find_tracks board original_net_name (GetTracks board) []
            in if tracks_to_process = []
               then (MessageBox (No_tracks_found original_net_name) ''Info'' ICON_INFORMATION, board)
               else
                 (case process_tracks num_splits group_width_iu split_width_iu internal_sep_iu
                         tracks_to_process (board, 0) of
                    Inl (e, board') \<Rightarrow> (Raised e, board')
                  | Inr (board', new_tracks_count) \<Rightarrow>
                      (MessageBox (Summary (length tracks_to_process) new_tracks_count original_net_name)
                         ''Track Splitter Finished'' ICON_INFORMATION,
                       board'))))"

section \<open>Notions used to state the properties\<close>

text \<open>
  The locals \<^verbatim>\<open>direction\<close> and \<^verbatim>\<open>(shift_vec_x, shift_vec_y)\<close> of the loop body, as
  functions of the track; \<open>shift_vec\<close> is only meant for a track of positive length.
\<close>

definition direction :: "TRACK \<Rightarrow> int \<times> int" where
  "direction track =
     (fst (End track) - fst (Start track), snd (End track) - snd (Start track))"

definition shift_vec :: "TRACK \<Rightarrow> real \<times> real" where
  "shift_vec track =
     (let d = direction track; l = sqrt (real_of_int ((fst d)\<^sup>2 + (snd d)\<^sup>2))
      in (- (real_of_int (snd d) / l), real_of_int (fst d) / l))"

text \<open>The tracks that the inner loop builds for one original track, in the loop's order.\<close>

definition cluster :: "int \<Rightarrow> int \<Rightarrow> int \<Rightarrow> int \<Rightarrow> TRACK \<Rightarrow> TRACK list" where
  "cluster num_splits group_width_iu split_width_iu internal_sep_iu track =
     map (new_track track group_width_iu split_width_iu internal_sep_iu
            (fst (shift_vec track)) (snd (shift_vec track)))
         (py_range num_splits)"


text \<open>The handles of these tracks: the group takes the first fresh handle, they the next.\<close>

definition new_handles :: "BOARD \<Rightarrow> int \<Rightarrow> handle list" where
  "new_handles board num_splits = [Suc (fresh board)..<Suc (fresh board) + nat num_splits]"

text \<open>
  A board is well formed when no two tracks share a handle and every handle in use is
  below the next fresh one.
\<close>

definition wf_board :: "BOARD \<Rightarrow> bool" where
  "wf_board board \<longleftrightarrow>
     distinct (map fst (tracks board)) \<and>
     list_all (\<lambda>h. h < fresh board) (map fst (tracks board)) \<and>
     list_all (\<lambda>g. g < fresh board) (map fst (groups board))"

text \<open>The tracks of a net, and the others.\<close>

definition on_net :: "BOARD \<Rightarrow> string \<Rightarrow> handle \<times> TRACK \<Rightarrow> bool" where
  "on_net board name track \<longleftrightarrow> GetNetname board (snd track) = name"

subsection \<open>The algorithm in the specification's words\<close>

text \<open>
  Section 4.2 of the specification, for a segment and a configuration
  \<open>(splitCount, splitWidth, internalSeparation)\<close>: the direction, the unit vector, the
  perpendicular, the group width, the offsets, the shifts and the new segments.
\<close>

definition spec_unit :: "TRACK \<Rightarrow> real \<times> real" where
  "spec_unit segment =
     (let dx = real_of_int (fst (End segment) - fst (Start segment));
          dy = real_of_int (snd (End segment) - snd (Start segment));
          len = sqrt (dx\<^sup>2 + dy\<^sup>2)
      in (dx / len, dy / len))"

definition rotate90 :: "real \<times> real \<Rightarrow> real \<times> real" where
  "rotate90 v = (- snd v, fst v)"

definition spec_groupWidth :: "int \<Rightarrow> int \<Rightarrow> int \<Rightarrow> int" where
  "spec_groupWidth splitCount splitWidth internalSeparation =
     splitCount * splitWidth + (splitCount - 1) * internalSeparation"

definition spec_offset :: "int \<Rightarrow> int \<Rightarrow> int \<Rightarrow> nat \<Rightarrow> real" where
  "spec_offset splitCount splitWidth internalSeparation i =
     - real_of_int (spec_groupWidth splitCount splitWidth internalSeparation) / 2
       + real i * (real_of_int splitWidth + real_of_int internalSeparation)
       + real_of_int splitWidth / 2"

definition spec_shift :: "TRACK \<Rightarrow> int \<Rightarrow> int \<Rightarrow> int \<Rightarrow> nat \<Rightarrow> int \<times> int" where
  "spec_shift segment splitCount splitWidth internalSeparation i =
     (let perp = rotate90 (spec_unit segment);
          offset = spec_offset splitCount splitWidth internalSeparation i
      in (py_round (fst perp * offset), py_round (snd perp * offset)))"

definition spec_segment :: "TRACK \<Rightarrow> int \<Rightarrow> int \<Rightarrow> int \<Rightarrow> nat \<Rightarrow> TRACK" where
  "spec_segment segment splitCount splitWidth internalSeparation i =
     (let shift = spec_shift segment splitCount splitWidth internalSeparation i
      in \<lparr>Start = (fst (Start segment) + fst shift, snd (Start segment) + snd shift),
          End = (fst (End segment) + fst shift, snd (End segment) + snd shift),
          Width = splitWidth,
          NetCode = NetCode segment,
          Layer = Layer segment\<rparr>)"

definition spec_split :: "TRACK \<Rightarrow> int \<Rightarrow> int \<Rightarrow> int \<Rightarrow> TRACK list" where
  "spec_split segment splitCount splitWidth internalSeparation =
     map (spec_segment segment splitCount splitWidth internalSeparation) [0..<nat splitCount]"

subsection \<open>Concrete boards and settings\<close>

definition mm :: "real \<Rightarrow> int" where
  "mm x = \<lfloor>x * 1000000\<rfloor>"

definition gnd :: "int \<Rightarrow> string" where
  "gnd c = (if c = 1 then ''GND'' else ''VCC'')"

definition straight :: TRACK where
  "straight = \<lparr>Start = (0, 0), End = (1000, 0), Width = 250000, NetCode = 1, Layer = 0\<rparr>"

definition point :: TRACK where
  "point = \<lparr>Start = (5, 7), End = (5, 7), Width = 250000, NetCode = 1, Layer = 0\<rparr>"

definition other :: TRACK where
  "other = \<lparr>Start = (0, 0), End = (0, 300), Width = 250000, NetCode = 2, Layer = 0\<rparr>"

definition diagonal :: TRACK where
  "diagonal = \<lparr>Start = (0, 0), End = (300, 400), Width = 250000, NetCode = 1, Layer = 3\<rparr>"

definition board_straight :: BOARD where
  "board_straight = \<lparr>tracks = [(0, other), (1, straight)], groups = [], nets = gnd, fresh = 2\<rparr>"

definition board_point :: BOARD where
  "board_point = \<lparr>tracks = [(0, point), (1, straight)], groups = [], nets = gnd, fresh = 2\<rparr>"

definition board_diagonal :: BOARD where
  "board_diagonal =
     \<lparr>tracks = [(0, diagonal), (1, other)], groups = [(2, [1])], nets = gnd, fresh = 3\<rparr>"

definition two_splits :: settings where
  "two_splits = \<lparr>settings_net_name = ''GND'', settings_split_width = 14 / 100,
                  settings_internal_sep = 2 / 100, settings_num_splits = 2\<rparr>"

definition negative_width :: settings where
  "negative_width = \<lparr>settings_net_name = ''GND'', settings_split_width = - (14 / 100),
                      settings_internal_sep = - (2 / 100), settings_num_splits = 2\<rparr>"

section \<open>What the loops compute\<close>

subsection \<open>Arithmetic\<close>

lemma length_zero_iff:
  "sqrt (real_of_int ((fst (direction tr))\<^sup>2 + (snd (direction tr))\<^sup>2)) = 0 \<longleftrightarrow> Start tr = End tr"
proof -
  have "real_of_int ((fst (direction tr))\<^sup>2 + (snd (direction tr))\<^sup>2) = 0
          \<longleftrightarrow> (fst (direction tr))\<^sup>2 + (snd (direction tr))\<^sup>2 = 0"
    by (simp only: of_int_eq_0_iff)
  also have "\<dots> \<longleftrightarrow> fst (direction tr) = 0 \<and> snd (direction tr) = 0"
    by (rule sum_power2_eq_zero_iff)
  also have "\<dots> \<longleftrightarrow> Start tr = End tr"
    by (auto simp: direction_def prod_eq_iff)
  finally show ?thesis by simp
qed

lemma py_round_nearest: "\<bar>real_of_int (py_round x) - x\<bar> \<le> 1 / 2"
  unfolding py_round_def Let_def by (auto; linarith)

lemma py_round_minus: "py_round (- x) = - py_round x"
proof (cases "x = of_int \<lfloor>x\<rfloor>")
  case True
  then obtain k :: int where x: "x = of_int k" ..
  have "- x = of_int (- k)" by (simp add: x)
  then have "\<lfloor>- x\<rfloor> = - k" by (simp only: floor_of_int)
  moreover have "\<lfloor>x\<rfloor> = k" by (simp add: x)
  ultimately show ?thesis
    by (simp add: py_round_def x)
next
  case False
  define f where "f = \<lfloor>x\<rfloor>"
  define d where "d = x - of_int f"
  have d: "0 < d" "d < 1"
    using False floor_correct [of x] unfolding d_def f_def by linarith+
  have x: "x = of_int f + d" by (simp add: d_def)
  have fl: "\<lfloor>- x\<rfloor> = - f - 1"
    by (rule floor_unique) (use d in \<open>simp_all add: x\<close>)
  have d': "- x - of_int (- f - 1) = 1 - d"
    by (simp add: x)
  have ev: "even (- f - 1) \<longleftrightarrow> odd f" by simp
  have "py_round (- x) =
          (if 1 - d < 1 / 2 then - f - 1 else if 1 / 2 < 1 - d then - f
           else if odd f then - f - 1 else - f)"
    unfolding py_round_def Let_def fl d' ev by simp
  moreover have "py_round x =
          (if d < 1 / 2 then f else if 1 / 2 < d then f + 1
           else if even f then f else f + 1)"
    unfolding py_round_def Let_def f_def [symmetric] d_def [symmetric] by simp
  ultimately show ?thesis
    using d by (auto; linarith)
qed

lemma offset_iu_spec:
  "offset_iu (group_width ns sw sep) sw sep (int i) = spec_offset ns sw sep i"
  by (simp add: offset_iu_def spec_offset_def group_width_def spec_groupWidth_def algebra_simps)

lemma offset_iu_mirror:
  "offset_iu (group_width ns sw sep) sw sep (ns - 1 - i)
     = - offset_iu (group_width ns sw sep) sw sep i"
  by (simp add: offset_iu_def group_width_def algebra_simps)


lemma sum_offset_iu:
  "sum_list (map (offset_iu gw sw sep) (map int [0..<k])) =
     real k * (real_of_int sw - real_of_int gw) / 2
       + (real_of_int sw + real_of_int sep) * (real k * (real k - 1) / 2)"
proof (induction k)
  case 0
  show ?case by simp
next
  case (Suc k)
  have "sum_list (map (offset_iu gw sw sep) (map int [0..<Suc k])) =
          sum_list (map (offset_iu gw sw sep) (map int [0..<k])) + offset_iu gw sw sep (int k)"
    by simp
  also have "\<dots> = real k * (real_of_int sw - real_of_int gw) / 2
       + (real_of_int sw + real_of_int sep) * (real k * (real k - 1) / 2)
       + offset_iu gw sw sep (int k)"
    by (simp only: Suc.IH)
  also have "\<dots> = real (Suc k) * (real_of_int sw - real_of_int gw) / 2
       + (real_of_int sw + real_of_int sep) * (real (Suc k) * (real (Suc k) - 1) / 2)"
    by (simp add: offset_iu_def field_simps)
  finally show ?case .
qed

lemma sum_offset_iu_zero:
  "sum_list (map (offset_iu (group_width ns sw sep) sw sep) (py_range ns)) = 0"
proof (cases "1 \<le> ns")
  case True
  then have k: "real (nat ns) = real_of_int ns" by simp
  show ?thesis
    unfolding py_range_def sum_offset_iu k
    by (simp add: group_width_def field_simps)
next
  case False
  then show ?thesis by (simp add: py_range_def)
qed


subsection \<open>The inner loop and one track\<close>

lemma split_loop_eq:
  assumes "groups b = gs @ [(g, ms)]" and "g \<notin> fst ` set gs"
  shows "split_loop tr gw sw sep vx vy g is (b, n) =
           (b\<lparr>tracks := tracks b @ zip [fresh b..<fresh b + length is] (map (new_track tr gw sw sep vx vy) is),
              groups := gs @ [(g, ms @ [fresh b..<fresh b + length is])],
              fresh := fresh b + length is\<rparr>,
            n + length is)"
  using assms
proof (induction "is" arbitrary: b n ms)
  case Nil
  then show ?case by simp
next
  case (Cons i rest)
  let ?b2 = "AddItem (snd (Add_TRACK b (new_track tr gw sw sep vx vy i))) g (fresh b)"
  have map_gs: "map (\<lambda>(g', ms). if g' = g then (g', ms @ [h]) else (g', ms)) gs = gs" for h
    using Cons.prems(2) by (induction gs) auto
  have g2: "groups ?b2 = gs @ [(g, ms @ [fresh b])]"
    using Cons.prems(1) by (simp add: AddItem_def Add_TRACK_def map_gs)
  have f2: "fresh ?b2 = Suc (fresh b)" and t2: "tracks ?b2 = tracks b @ [(fresh b, new_track tr gw sw sep vx vy i)]"
    by (simp_all add: AddItem_def Add_TRACK_def)
  have step: "split_loop tr gw sw sep vx vy g (i # rest) (b, n) =
              split_loop tr gw sw sep vx vy g rest (?b2, n + 1)"
    by (simp add: Add_TRACK_def Let_def)
  have upt: "[fresh b..<fresh b + length (i # rest)] = fresh b # [Suc (fresh b)..<Suc (fresh b) + length rest]"
    using upt_conv_Cons [of "fresh b" "fresh b + Suc (length rest)"] by simp
  show ?case
    unfolding step Cons.IH [OF g2 Cons.prems(2)] f2 t2 upt
    by (simp add: AddItem_def Add_TRACK_def)
qed


lemma split_track_ok:
  assumes "Start tr \<noteq> End tr" and "fresh b \<notin> fst ` set (groups b)"
  shows "split_track ns gw sw sep (b, n) (h, tr) =
           Inr (Remove (b\<lparr>tracks := tracks b @ zip (new_handles b ns) (cluster ns gw sw sep tr),
                          groups := groups b @ [(fresh b, new_handles b ns)],
                          fresh := Suc (fresh b) + nat ns\<rparr>) h,
                n + nat ns)"
proof -
  let ?d = "direction tr"
  let ?l = "sqrt (real_of_int ((fst ?d)\<^sup>2 + (snd ?d)\<^sup>2))"
  let ?b1 = "snd (Add_GROUP b)"
  have l: "?l \<noteq> 0"
    using assms(1) by (simp only: length_zero_iff not_False_eq_True)
  have g1: "groups ?b1 = groups b @ [(fresh b, [])]" and f1: "fresh ?b1 = Suc (fresh b)"
    and t1: "tracks ?b1 = tracks b"
    by (simp_all add: Add_GROUP_def)
  have loop: "split_loop tr gw sw sep (fst (shift_vec tr)) (snd (shift_vec tr)) (fresh b)
                (py_range ns) (?b1, n) =
              (?b1\<lparr>tracks := tracks b @ zip (new_handles b ns) (cluster ns gw sw sep tr),
                    groups := groups b @ [(fresh b, new_handles b ns)],
                    fresh := Suc (fresh b) + nat ns\<rparr>,
               n + nat ns)"
    using split_loop_eq [OF g1 assms(2), of tr gw sw sep "fst (shift_vec tr)" "snd (shift_vec tr)"
                           "py_range ns" n]
    by (simp add: f1 t1 new_handles_def cluster_def py_range_def)
  have b1: "?b1\<lparr>tracks := ts, groups := gs, fresh := f\<rparr> = b\<lparr>tracks := ts, groups := gs, fresh := f\<rparr>"
    for ts gs f
    by (simp add: Add_GROUP_def)
  have "split_track ns gw sw sep (b, n) (h, tr) =
          (case split_loop tr gw sw sep (fst (shift_vec tr)) (snd (shift_vec tr)) (fresh b)
                  (py_range ns) (?b1, n) of
             (board2, new_tracks_count) \<Rightarrow> Inr (Remove board2 h, new_tracks_count))"
    using l
    by (simp add: split_track_def truediv_def Let_def shift_vec_def direction_def
                  Add_GROUP_def split_beta)
  then show ?thesis
    by (simp only: loop b1 prod.case)
qed

lemma length_cluster: "length (cluster ns gw sw sep tr) = nat ns"
  by (simp add: cluster_def py_range_def)

lemma length_new_handles: "length (new_handles b ns) = nat ns"
  by (simp add: new_handles_def)

lemma set_new_handles: "h' \<in> set (new_handles b ns) \<Longrightarrow> fresh b < h'"
  by (auto simp: new_handles_def)

lemma filter_new:
  assumes "\<And>h'. fresh b < h' \<Longrightarrow> P h'"
  shows "filter (\<lambda>tr. P (fst tr)) (zip (new_handles b ns) ts) = zip (new_handles b ns) ts"
proof -
  have "P (fst x)" if "x \<in> set (zip (new_handles b ns) ts)" for x
  proof -
    from that have "fst x \<in> set (new_handles b ns)"
      by (metis prod.collapse set_zip_leftD)
    then show ?thesis
      by (rule assms [OF set_new_handles])
  qed
  then show ?thesis by (simp add: filter_id_conv)
qed

lemma split_track_result:
  assumes wf: "wf_board board" and h: "(h, track) \<in> set (tracks board)"
    and nd: "Start track \<noteq> End track"
  shows "split_track ns gw sw sep (board, n) (h, track) =
           Inr (board\<lparr>tracks := filter (\<lambda>t. fst t \<noteq> h) (tracks board)
                                 @ zip (new_handles board ns) (cluster ns gw sw sep track),
                      groups := groups board @ [(fresh board, new_handles board ns)],
                      fresh := Suc (fresh board) + nat ns\<rparr>,
                n + nat ns)"
proof -
  have fr: "fresh board \<notin> fst ` set (groups board)"
    using wf by (auto simp: wf_board_def list_all_iff)
  have hb: "h < fresh board"
    using wf h by (force simp: wf_board_def list_all_iff)
  have "filter (\<lambda>t. fst t \<noteq> h) (zip (new_handles board ns) (cluster ns gw sw sep track))
          = zip (new_handles board ns) (cluster ns gw sw sep track)"
    using hb by (intro filter_new) simp
  then show ?thesis
    unfolding split_track_ok [OF nd fr] by (simp add: Remove_def case_prod_unfold)
qed

subsection \<open>The order across the direction\<close>






subsection \<open>The code's tracks are the specification's\<close>

lemma shift_vec_spec: "shift_vec tr = rotate90 (spec_unit tr)"
  by (simp add: shift_vec_def rotate90_def spec_unit_def direction_def Let_def)

lemma new_track_spec:
  "new_track tr (group_width ns sw sep) sw sep (fst (shift_vec tr)) (snd (shift_vec tr)) (int i)
     = spec_segment tr ns sw sep i"
  unfolding new_track_def spec_segment_def spec_shift_def Let_def offset_iu_spec shift_vec_spec
  by simp

lemma cluster_spec: "cluster ns (group_width ns sw sep) sw sep tr = spec_split tr ns sw sep"
  by (simp add: cluster_def spec_split_def py_range_def new_track_spec comp_def)

subsection \<open>The whole run\<close>

lemma find_tracks_eq:
  "find_tracks b name ts acc = acc @ filter (on_net b name) ts"
  by (induction ts arbitrary: acc) (simp_all add: on_net_def)

lemma filter_selected:
  assumes "distinct (map fst xs)"
  shows "filter (\<lambda>x. fst x \<notin> set (map fst (filter P xs))) xs = filter (\<lambda>x. \<not> P x) xs"
proof (rule filter_cong [OF refl])
  fix x assume x: "x \<in> set xs"
  have inj: "inj_on fst (set xs)"
    using assms by (simp add: distinct_map)
  show "(fst x \<notin> set (map fst (filter P xs))) = (\<not> P x)"
  proof
    assume "fst x \<notin> set (map fst (filter P xs))"
    then show "\<not> P x" using x by force
  next
    assume np: "\<not> P x"
    show "fst x \<notin> set (map fst (filter P xs))"
    proof
      assume "fst x \<in> set (map fst (filter P xs))"
      then obtain y where y: "y \<in> set xs" "P y" "fst y = fst x" by auto
      with inj x have "y = x" by (auto dest: inj_onD)
      with y np show False by simp
    qed
  qed
qed

lemma process_tracks_ok:
  assumes "list_all (\<lambda>tr. Start (snd tr) \<noteq> End (snd tr)) tp"
    and "list_all (\<lambda>h. h < fresh b) (map fst tp)"
    and "list_all (\<lambda>g. g < fresh b) (map fst (groups b))"
  shows "\<exists>b'. process_tracks ns gw sw sep tp (b, n) = Inr (b', n + length tp * nat ns) \<and>
           map snd (tracks b') =
             map snd (filter (\<lambda>tr. fst tr \<notin> set (map fst tp)) (tracks b))
               @ concat (map (\<lambda>tr. cluster ns gw sw sep (snd tr)) tp) \<and>
           nets b' = nets b"
  using assms
proof (induction tp arbitrary: b n)
  case Nil
  then show ?case by simp
next
  case (Cons track rest)
  obtain h tr where track: "track = (h, tr)" by (cases track)
  let ?b1 = "Remove (b\<lparr>tracks := tracks b @ zip (new_handles b ns) (cluster ns gw sw sep tr),
                          groups := groups b @ [(fresh b, new_handles b ns)],
                          fresh := Suc (fresh b) + nat ns\<rparr>) h"
  have nd: "Start tr \<noteq> End tr" and h: "h < fresh b"
    using Cons.prems(1,2) by (simp_all add: track)
  have fr: "fresh b \<notin> fst ` set (groups b)"
    using Cons.prems(3) by (auto simp: list_all_iff)
  have step: "split_track ns gw sw sep (b, n) track = Inr (?b1, n + nat ns)"
    unfolding track by (rule split_track_ok [OF nd fr])
  have f1: "fresh ?b1 = Suc (fresh b) + nat ns"
    and g1: "groups ?b1 = groups b @ [(fresh b, new_handles b ns)]"
    and n1: "nets ?b1 = nets b"
    by (simp_all add: Remove_def)
  have t1: "tracks ?b1 = filter (\<lambda>tr. fst tr \<noteq> h) (tracks b)
                           @ zip (new_handles b ns) (cluster ns gw sw sep tr)"
    using filter_new [of b "\<lambda>h'. h' \<noteq> h" ns "cluster ns gw sw sep tr"] h
    by (simp add: Remove_def case_prod_unfold)
  have p1: "list_all (\<lambda>tr. Start (snd tr) \<noteq> End (snd tr)) rest"
    using Cons.prems(1) by simp
  have p2: "list_all (\<lambda>h. h < fresh ?b1) (map fst rest)"
    using Cons.prems(2) unfolding f1 by (auto simp: list_all_iff)
  have p3: "list_all (\<lambda>g. g < fresh ?b1) (map fst (groups ?b1))"
    using Cons.prems(3) unfolding f1 g1 by (auto simp: list_all_iff)
  obtain b' where run: "process_tracks ns gw sw sep rest (?b1, n + nat ns)
                          = Inr (b', n + nat ns + length rest * nat ns)"
    and tr': "map snd (tracks b') =
                map snd (filter (\<lambda>tr. fst tr \<notin> set (map fst rest)) (tracks ?b1))
                  @ concat (map (\<lambda>tr. cluster ns gw sw sep (snd tr)) rest)"
    and n': "nets b' = nets ?b1"
    using Cons.IH [OF p1 p2 p3, of "n + nat ns"] by blast
  have keep: "filter (\<lambda>tr. fst tr \<notin> set (map fst rest)) (zip (new_handles b ns) (cluster ns gw sw sep tr))
                = zip (new_handles b ns) (cluster ns gw sw sep tr)"
  proof (rule filter_new)
    fix h' assume "fresh b < h'"
    then show "h' \<notin> set (map fst rest)"
      using Cons.prems(2) by (auto simp: list_all_iff)
  qed
  have vals: "map snd (zip (new_handles b ns) (cluster ns gw sw sep tr)) = cluster ns gw sw sep tr"
    by (simp add: length_cluster length_new_handles)
  have "map snd (filter (\<lambda>tr. fst tr \<notin> set (map fst rest)) (tracks ?b1)) =
          map snd (filter (\<lambda>tr. fst tr \<notin> set (map fst (track # rest))) (tracks b))
            @ cluster ns gw sw sep tr"
    unfolding t1 by (simp add: keep [simplified] vals track conj_commute)
  then have "map snd (tracks b') =
          map snd (filter (\<lambda>tr. fst tr \<notin> set (map fst (track # rest))) (tracks b))
            @ concat (map (\<lambda>tr. cluster ns gw sw sep (snd tr)) (track # rest))"
    unfolding tr' by (simp add: track)
  moreover have "process_tracks ns gw sw sep (track # rest) (b, n)
                   = Inr (b', n + length (track # rest) * nat ns)"
    using run by (simp add: step add.assoc)
  moreover have "nets b' = nets b"
    unfolding n' by (rule n1)
  ultimately show ?case by blast
qed

lemma split_tracks_run:
  assumes wf: "wf_board board"
    and ns: "1 \<le> settings_num_splits s"
    and nd: "list_all (\<lambda>tr. Start (snd tr) \<noteq> End (snd tr))
               (filter (on_net board (settings_net_name s)) (tracks board))"
  shows "\<exists>board'.
           split_tracks FromMM board s =
             (if filter (on_net board (settings_net_name s)) (tracks board) = []
              then MessageBox (No_tracks_found (settings_net_name s)) ''Info'' ICON_INFORMATION
              else MessageBox
                     (Summary (length (filter (on_net board (settings_net_name s)) (tracks board)))
                        (length (filter (on_net board (settings_net_name s)) (tracks board))
                           * nat (settings_num_splits s))
                        (settings_net_name s))
                     ''Track Splitter Finished'' ICON_INFORMATION,
              board') \<and>
           map snd (tracks board') =
             map snd (filter (\<lambda>tr. \<not> on_net board (settings_net_name s) tr) (tracks board))
               @ concat (map (\<lambda>tr. cluster (settings_num_splits s)
                                       (group_width (settings_num_splits s)
                                          (FromMM (settings_split_width s))
                                          (FromMM (settings_internal_sep s)))
                                       (FromMM (settings_split_width s))
                                       (FromMM (settings_internal_sep s)) (snd tr))
                           (filter (on_net board (settings_net_name s)) (tracks board)))"
proof -
  let ?name = "settings_net_name s"
  let ?ns = "settings_num_splits s"
  let ?sw = "FromMM (settings_split_width s)"
  let ?sep = "FromMM (settings_internal_sep s)"
  let ?gw = "group_width ?ns ?sw ?sep"
  let ?tp = "filter (on_net board ?name) (tracks board)"
  have sel: "find_tracks board ?name (GetTracks board) [] = ?tp"
    using find_tracks_eq [of board ?name "tracks board" "[]"] by (simp add: GetTracks_def)
  have dist: "distinct (map fst (tracks board))"
    and hb: "list_all (\<lambda>h. h < fresh board) (map fst (tracks board))"
    and gb: "list_all (\<lambda>g. g < fresh board) (map fst (groups board))"
    using wf by (simp_all add: wf_board_def)
  have hb': "list_all (\<lambda>h. h < fresh board) (map fst ?tp)"
    using hb by (auto simp: list_all_iff)
  obtain b' where run: "process_tracks ?ns ?gw ?sw ?sep ?tp (board, 0) = Inr (b', 0 + length ?tp * nat ?ns)"
    and tr': "map snd (tracks b') =
                map snd (filter (\<lambda>tr. fst tr \<notin> set (map fst ?tp)) (tracks board))
                  @ concat (map (\<lambda>tr. cluster ?ns ?gw ?sw ?sep (snd tr)) ?tp)"
    using process_tracks_ok [OF nd hb' gb, of ?ns ?gw ?sw ?sep 0] by blast
  have tr'': "map snd (tracks b') =
                map snd (filter (\<lambda>tr. \<not> on_net board ?name tr) (tracks board))
                  @ concat (map (\<lambda>tr. cluster ?ns ?gw ?sw ?sep (snd tr)) ?tp)"
    unfolding tr' filter_selected [OF dist] ..
  show ?thesis
  proof (cases "?tp = []")
    case True
    have "split_tracks FromMM board s =
            (MessageBox (No_tracks_found ?name) ''Info'' ICON_INFORMATION, board)"
      using ns True unfolding split_tracks_def Let_def sel by simp
    moreover have "map snd (tracks board) =
        map snd (filter (\<lambda>tr. \<not> on_net board ?name tr) (tracks board))
          @ concat (map (\<lambda>tr. cluster ?ns ?gw ?sw ?sep (snd tr)) ?tp)"
      using True by (simp add: filter_empty_conv)
    ultimately show ?thesis using True by auto
  next
    case False
    have "split_tracks FromMM board s =
            (MessageBox (Summary (length ?tp) (length ?tp * nat ?ns) ?name)
               ''Track Splitter Finished'' ICON_INFORMATION, b')"
      using ns False run unfolding split_tracks_def Let_def sel by simp
    then show ?thesis using False tr'' by auto
  qed
qed

subsection \<open>Unfolding for concrete boards\<close>

lemmas board_defs = board_straight_def board_point_def board_diagonal_def straight_def point_def
  other_def diagonal_def gnd_def negative_width_def
  two_splits_def mm_def

lemmas run_defs = split_tracks_def GetTracks_def GetNetname_def split_track_def Add_GROUP_def
  truediv_def py_range_def new_track_def offset_iu_def py_round_def Add_TRACK_def AddItem_def
  Remove_def group_width_def Let_def upt_conv_Cons

section \<open>Properties of split\_tracks\<close>

subsection \<open>A track of length zero\<close>

text \<open>
  C1: a segment whose start equals its end is to be refused before any unit vector is
  computed, and skipped while the rest of the batch goes on. The code has no such guard.
  On a board whose net holds a track of length zero followed by a straight one,
  \<^verbatim>\<open>split_tracks\<close> adds the group of the first track, divides by the length 0 and
  leaves with \<^verbatim>\<open>ZeroDivisionError\<close>: the empty group stays on the board, and the second
  track, which could be split, is never processed.
\<close>

theorem degenerate_segment_raises:
  "split_tracks mm board_point two_splits =
     (Raised ZeroDivisionError, board_point\<lparr>groups := [(2, [])], fresh := 3\<rparr>)"
  by (simp add: board_defs run_defs)

subsection \<open>Width and separation\<close>

text \<open>
  C2, as the code has it: \<^verbatim>\<open>split_tracks\<close> checks the split count and nothing else of
  the configuration. For every configuration with a split count of at least 1, whatever
  the sign of the width and of the separation, and every well-formed board on which the
  tracks of the net have positive length and are at least one, the run ends with the
  summary box: every track of the net has been replaced by the tracks of its cluster, each
  of the width given, and the tracks of other nets are as they were.
\<close>

theorem width_and_separation_unchecked:
  assumes "wf_board board" and "1 \<le> settings_num_splits s"
    and "list_all (\<lambda>tr. Start (snd tr) \<noteq> End (snd tr))
           (filter (on_net board (settings_net_name s)) (tracks board))"
    and "filter (on_net board (settings_net_name s)) (tracks board) \<noteq> []"
  shows "fst (split_tracks FromMM board s) =
           MessageBox
             (Summary (length (filter (on_net board (settings_net_name s)) (tracks board)))
                (length (filter (on_net board (settings_net_name s)) (tracks board))
                   * nat (settings_num_splits s))
                (settings_net_name s))
             ''Track Splitter Finished'' ICON_INFORMATION \<and>
         map snd (tracks (snd (split_tracks FromMM board s))) =
           map snd (filter (\<lambda>tr. \<not> on_net board (settings_net_name s) tr) (tracks board))
             @ concat (map (\<lambda>tr. cluster (settings_num_splits s)
                                     (group_width (settings_num_splits s)
                                        (FromMM (settings_split_width s))
                                        (FromMM (settings_internal_sep s)))
                                     (FromMM (settings_split_width s))
                                     (FromMM (settings_internal_sep s)) (snd tr))
                         (filter (on_net board (settings_net_name s)) (tracks board))) \<and>
         list_all (\<lambda>t. Width t = FromMM (settings_split_width s))
           (concat (map (\<lambda>tr. cluster (settings_num_splits s)
                                     (group_width (settings_num_splits s)
                                        (FromMM (settings_split_width s))
                                        (FromMM (settings_internal_sep s)))
                                     (FromMM (settings_split_width s))
                                     (FromMM (settings_internal_sep s)) (snd tr))
                         (filter (on_net board (settings_net_name s)) (tracks board))))"
proof -
  have "list_all (\<lambda>t. Width t = sw) (concat (map (\<lambda>tr. cluster ns gw sw sep (snd tr)) tp))"
    for ns gw sw sep and tp :: "(handle \<times> TRACK) list"
    by (auto simp: list_all_iff cluster_def new_track_def Let_def)
  then show ?thesis
    using split_tracks_run [OF assms(1-3), of FromMM] assms(4) by auto
qed

theorem width_and_separation_unchecked_witness:
  "wf_board board_straight \<and> 1 \<le> settings_num_splits negative_width \<and>
   list_all (\<lambda>tr. Start (snd tr) \<noteq> End (snd tr))
     (filter (on_net board_straight (settings_net_name negative_width)) (tracks board_straight)) \<and>
   filter (on_net board_straight (settings_net_name negative_width)) (tracks board_straight)
     = [(1, straight)] \<and>
   mm (settings_split_width negative_width) = - 140000 \<and>
   mm (settings_internal_sep negative_width) = - 20000 \<and>
   fst (split_tracks mm board_straight negative_width) =
     MessageBox (Summary 1 2 ''GND'') ''Track Splitter Finished'' ICON_INFORMATION \<and>
   map snd (tracks (snd (split_tracks mm board_straight negative_width))) =
     [other,
      \<lparr>Start = (0, 80000), End = (1000, 80000), Width = - 140000, NetCode = 1, Layer = 0\<rparr>,
      \<lparr>Start = (0, - 80000), End = (1000, - 80000), Width = - 140000, NetCode = 1, Layer = 0\<rparr>]"
  using width_and_separation_unchecked [of board_straight negative_width mm]
  by (simp add: wf_board_def on_net_def board_defs run_defs)

text \<open>
  C2 as stated fails: with a width of -0.14 mm and a separation of -0.02 mm no error is
  reported, and the board is modified; the straight track is replaced by two tracks of
  width -140000.
\<close>

theorem negative_width_accepted:
  "mm (settings_split_width negative_width) \<le> 0 \<and>
   mm (settings_internal_sep negative_width) < 0 \<and>
   split_tracks mm board_straight negative_width =
     (MessageBox (Summary 1 2 ''GND'') ''Track Splitter Finished'' ICON_INFORMATION,
      \<lparr>tracks = [(0, other),
                 (3, \<lparr>Start = (0, 80000), End = (1000, 80000), Width = - 140000,
                       NetCode = 1, Layer = 0\<rparr>),
                 (4, \<lparr>Start = (0, - 80000), End = (1000, - 80000), Width = - 140000,
                       NetCode = 1, Layer = 0\<rparr>)],
        groups = [(2, [3, 4])], nets = gnd, fresh = 5\<rparr>)"
  by (simp add: board_defs run_defs)

subsection \<open>What a failure leaves on the board\<close>




subsection \<open>The geometry\<close>

text \<open>
  C4: for every configuration with a split count of at least 1 (so for every valid one)
  and every well-formed board whose tracks of the net have positive length, the tracks of
  the board after the run are the tracks of the other nets, unchanged, followed by, for
  each track of the net in order, the segments of the specification's algorithm:
  \<open>spec_split\<close> with its group width, its offsets, the rotation \<open>(dx, dy) \<mapsto> (-dy, dx)\<close>
  of the unit vector and the shift added to both endpoints. The rounding takes a nearest
  integer: the rounded value is at most one half away.
\<close>

theorem split_geometry:
  assumes "wf_board board" and "1 \<le> settings_num_splits s"
    and "list_all (\<lambda>tr. Start (snd tr) \<noteq> End (snd tr))
           (filter (on_net board (settings_net_name s)) (tracks board))"
  shows "map snd (tracks (snd (split_tracks FromMM board s))) =
           map snd (filter (\<lambda>tr. \<not> on_net board (settings_net_name s) tr) (tracks board))
             @ concat (map (\<lambda>tr. spec_split (snd tr) (settings_num_splits s)
                                     (FromMM (settings_split_width s))
                                     (FromMM (settings_internal_sep s)))
                         (filter (on_net board (settings_net_name s)) (tracks board))) \<and>
         (\<forall>x. \<bar>real_of_int (py_round x) - x\<bar> \<le> 1 / 2)"
proof -
  obtain board' where "split_tracks FromMM board s =
             (if filter (on_net board (settings_net_name s)) (tracks board) = []
              then MessageBox (No_tracks_found (settings_net_name s)) ''Info'' ICON_INFORMATION
              else MessageBox
                     (Summary (length (filter (on_net board (settings_net_name s)) (tracks board)))
                        (length (filter (on_net board (settings_net_name s)) (tracks board))
                           * nat (settings_num_splits s))
                        (settings_net_name s))
                     ''Track Splitter Finished'' ICON_INFORMATION,
              board')"
    and "map snd (tracks board') =
             map snd (filter (\<lambda>tr. \<not> on_net board (settings_net_name s) tr) (tracks board))
               @ concat (map (\<lambda>tr. cluster (settings_num_splits s)
                                       (group_width (settings_num_splits s)
                                          (FromMM (settings_split_width s))
                                          (FromMM (settings_internal_sep s)))
                                       (FromMM (settings_split_width s))
                                       (FromMM (settings_internal_sep s)) (snd tr))
                           (filter (on_net board (settings_net_name s)) (tracks board)))"
    using split_tracks_run [OF assms, of FromMM] by blast
  then show ?thesis
    using py_round_nearest by (simp add: cluster_spec)
qed

theorem split_geometry_witness:
  "wf_board board_straight \<and> 1 \<le> settings_num_splits two_splits \<and>
   list_all (\<lambda>tr. Start (snd tr) \<noteq> End (snd tr))
     (filter (on_net board_straight (settings_net_name two_splits)) (tracks board_straight)) \<and>
   map snd (tracks (snd (split_tracks mm board_straight two_splits))) =
     [other,
      \<lparr>Start = (0, - 80000), End = (1000, - 80000), Width = 140000, NetCode = 1, Layer = 0\<rparr>,
      \<lparr>Start = (0, 80000), End = (1000, 80000), Width = 140000, NetCode = 1, Layer = 0\<rparr>]"
  using split_geometry [of board_straight two_splits mm]
  by (simp add: wf_board_def on_net_def board_defs run_defs)

text \<open>
  C5: for a track of positive length on a well-formed board and a split count of at least
  1, processing the track succeeds; it puts exactly \<open>num_splits\<close> new tracks on the
  board, under handles that were not in use, each with the layer and the net code of the
  original and the width \<open>split_width_iu\<close>, and the one new group holds exactly the
  handles of these tracks.
\<close>

theorem cluster_count_layer_net_width:
  assumes "wf_board board" and "(h, track) \<in> set (tracks board)"
    and "Start track \<noteq> End track" and "1 \<le> num_splits"
  shows "(case split_track num_splits group_width_iu split_width_iu internal_sep_iu (board, n) (h, track) of
            Inl e \<Rightarrow> False
          | Inr (board', n') \<Rightarrow>
              tracks board' = filter (\<lambda>t. fst t \<noteq> h) (tracks board)
                 @ zip (new_handles board num_splits)
                       (cluster num_splits group_width_iu split_width_iu internal_sep_iu track) \<and>
              int (length (cluster num_splits group_width_iu split_width_iu internal_sep_iu track))
                 = num_splits \<and>
              list_all (\<lambda>t. Layer t = Layer track \<and> NetCode t = NetCode track \<and> Width t = split_width_iu)
                 (cluster num_splits group_width_iu split_width_iu internal_sep_iu track) \<and>
              groups board' = groups board @ [(fresh board, new_handles board num_splits)] \<and>
              int (length (new_handles board num_splits)) = num_splits \<and>
              list_all (\<lambda>h'. h' \<notin> set (map fst (tracks board))) (new_handles board num_splits) \<and>
              n' = n + nat num_splits)"
proof -
  have "list_all (\<lambda>h'. h' \<notin> set (map fst (tracks board))) (new_handles board num_splits)"
    using assms(1) by (force simp: wf_board_def list_all_iff dest: set_new_handles)
  moreover have "list_all (\<lambda>t. Layer t = Layer track \<and> NetCode t = NetCode track \<and> Width t = split_width_iu)
                 (cluster num_splits group_width_iu split_width_iu internal_sep_iu track)"
    by (simp add: cluster_def list_all_iff new_track_def Let_def)
  ultimately show ?thesis
    unfolding split_track_result [OF assms(1-3)] using assms(4)
    by (simp add: length_cluster length_new_handles)
qed

theorem cluster_count_layer_net_width_witness:
  "wf_board board_straight \<and> (1, straight) \<in> set (tracks board_straight) \<and>
   Start straight \<noteq> End straight \<and> (1::int) \<le> 2 \<and>
   split_track 2 300000 140000 20000 (board_straight, 0) (1, straight) =
     Inr (\<lparr>tracks = [(0, other),
                      (3, \<lparr>Start = (0, - 80000), End = (1000, - 80000), Width = 140000,
                            NetCode = 1, Layer = 0\<rparr>),
                      (4, \<lparr>Start = (0, 80000), End = (1000, 80000), Width = 140000,
                            NetCode = 1, Layer = 0\<rparr>)],
            groups = [(2, [3, 4])], nets = gnd, fresh = 5\<rparr>, 2)"
  using cluster_count_layer_net_width [of board_straight 1 straight 2 300000 140000 20000 0]
  by (simp add: wf_board_def board_defs run_defs)

text \<open>
  C6: with the group width that \<^verbatim>\<open>split_tracks\<close> computes, the offsets of the indices
  \<open>i\<close> and \<open>num_splits - 1 - i\<close> add up to zero, exactly; the offsets of a cluster add up
  to zero; and the rounded shifts of the two indices add up to zero in each component,
  \<open>shift_vec_c\<close> being either component of the perpendicular.
\<close>

theorem offsets_symmetric_about_zero:
  "offset_iu (group_width num_splits split_width_iu internal_sep_iu) split_width_iu internal_sep_iu i
     + offset_iu (group_width num_splits split_width_iu internal_sep_iu) split_width_iu internal_sep_iu
         (num_splits - 1 - i) = 0 \<and>
   sum_list (map (offset_iu (group_width num_splits split_width_iu internal_sep_iu)
                    split_width_iu internal_sep_iu) (py_range num_splits)) = 0 \<and>
   py_round (shift_vec_c *
       offset_iu (group_width num_splits split_width_iu internal_sep_iu) split_width_iu internal_sep_iu i)
     + py_round (shift_vec_c *
         offset_iu (group_width num_splits split_width_iu internal_sep_iu) split_width_iu internal_sep_iu
           (num_splits - 1 - i)) = 0"
  by (simp add: offset_iu_mirror sum_offset_iu_zero py_round_minus)




subsection \<open>The configuration and the selection\<close>

text \<open>
  C8: for every configuration whose split count is below 1 (zero or negative),
  \<^verbatim>\<open>split_tracks\<close> shows the error "Number of splits must be at least 1." and returns
  before it has selected a track or computed any geometry: the board is the one it was
  given, whatever tracks it holds, and no track is processed.
\<close>

theorem invalid_split_count:
  "settings_num_splits s < 1 \<Longrightarrow>
     split_tracks FromMM board s = (MessageBox At_least_one_split ''Error'' ICON_ERROR, board)"
  by (simp add: split_tracks_def)

theorem invalid_split_count_witness:
  "settings_num_splits (two_splits\<lparr>settings_num_splits := 0\<rparr>) < 1 \<and>
   split_tracks mm board_point (two_splits\<lparr>settings_num_splits := 0\<rparr>) =
     (MessageBox At_least_one_split ''Error'' ICON_ERROR, board_point)"
  using invalid_split_count [of "two_splits\<lparr>settings_num_splits := 0\<rparr>" mm board_point]
  by (simp add: two_splits_def)

text \<open>
  C9: stage 1 returns exactly the tracks of the board whose net name is the given one, in
  the board's order (a subsequence of its tracks), and changes nothing; when no track
  matches, the sequence is empty and \<^verbatim>\<open>split_tracks\<close>, once the split count has passed
  its check, shows the information box "No straight tracks found" and leaves the board as
  it was, raising nothing.
\<close>

theorem select_tracks_of_net:
  "find_tracks board name (GetTracks board) [] =
     filter (\<lambda>track. GetNetname board (snd track) = name) (tracks board) \<and>
   subseq (find_tracks board name (GetTracks board) []) (tracks board) \<and>
   (1 \<le> settings_num_splits s \<and>
    filter (\<lambda>track. GetNetname board (snd track) = settings_net_name s) (tracks board) = [] \<longrightarrow>
      split_tracks FromMM board s =
        (MessageBox (No_tracks_found (settings_net_name s)) ''Info'' ICON_INFORMATION, board))"
proof -
  have sel: "find_tracks board n (GetTracks board) [] =
               filter (\<lambda>track. GetNetname board (snd track) = n) (tracks board)" for n
    using find_tracks_eq [of board n "tracks board" "[]"]
    by (simp add: GetTracks_def on_net_def [abs_def])
  have "subseq (find_tracks board name (GetTracks board) []) (tracks board)"
    unfolding sel by (rule subseq_filter_left)
  moreover have "split_tracks FromMM board s =
        (MessageBox (No_tracks_found (settings_net_name s)) ''Info'' ICON_INFORMATION, board)"
    if "1 \<le> settings_num_splits s"
      and "filter (\<lambda>track. GetNetname board (snd track) = settings_net_name s) (tracks board) = []"
    using that unfolding split_tracks_def Let_def sel by simp
  ultimately show ?thesis
    using sel [of name] by blast
qed

theorem select_tracks_of_net_witness:
  "find_tracks board_straight ''GND'' (GetTracks board_straight) [] = [(1, straight)] \<and>
   1 \<le> settings_num_splits (two_splits\<lparr>settings_net_name := ''CLK''\<rparr>) \<and>
   filter (\<lambda>track. GetNetname board_straight (snd track) = ''CLK'') (tracks board_straight) = [] \<and>
   split_tracks mm board_straight (two_splits\<lparr>settings_net_name := ''CLK''\<rparr>) =
     (MessageBox (No_tracks_found ''CLK'') ''Info'' ICON_INFORMATION, board_straight)"
  using select_tracks_of_net [of board_straight "''GND''" "two_splits\<lparr>settings_net_name := ''CLK''\<rparr>" mm]
  by (simp add: two_splits_def board_straight_def GetNetname_def gnd_def straight_def other_def)

subsection \<open>Translates\<close>

text \<open>
  C10: for a track of positive length on a well-formed board, every new track of its
  cluster is a translate of the original: its end minus its start is the original's end
  minus its start, in both coordinates, so direction and length are the original's.
\<close>

theorem replacement_is_translate:
  assumes "wf_board board" and "(h, track) \<in> set (tracks board)"
    and "Start track \<noteq> End track"
  shows "(case split_track num_splits group_width_iu split_width_iu internal_sep_iu (board, n) (h, track) of
            Inl e \<Rightarrow> False
          | Inr (board', n') \<Rightarrow>
              tracks board' = filter (\<lambda>t. fst t \<noteq> h) (tracks board)
                 @ zip (new_handles board num_splits)
                       (cluster num_splits group_width_iu split_width_iu internal_sep_iu track) \<and>
              list_all (\<lambda>t. fst (End t) - fst (Start t) = fst (End track) - fst (Start track) \<and>
                            snd (End t) - snd (Start t) = snd (End track) - snd (Start track))
                 (cluster num_splits group_width_iu split_width_iu internal_sep_iu track))"
proof -
  have "list_all (\<lambda>t. fst (End t) - fst (Start t) = fst (End track) - fst (Start track) \<and>
                      snd (End t) - snd (Start t) = snd (End track) - snd (Start track))
          (cluster num_splits group_width_iu split_width_iu internal_sep_iu track)"
    by (simp add: cluster_def list_all_iff new_track_def Let_def)
  then show ?thesis
    unfolding split_track_result [OF assms] by simp
qed

theorem replacement_is_translate_witness:
  "wf_board board_diagonal \<and> (0, diagonal) \<in> set (tracks board_diagonal) \<and>
   Start diagonal \<noteq> End diagonal \<and>
   split_track 2 300000 140000 20000 (board_diagonal, 0) (0, diagonal) =
     Inr (\<lparr>tracks = [(1, other),
                      (4, \<lparr>Start = (64000, - 48000), End = (64300, - 47600), Width = 140000,
                            NetCode = 1, Layer = 3\<rparr>),
                      (5, \<lparr>Start = (- 64000, 48000), End = (- 63700, 48400), Width = 140000,
                            NetCode = 1, Layer = 3\<rparr>)],
            groups = [(2, [1]), (3, [4, 5])], nets = gnd, fresh = 6\<rparr>, 2)"
  using replacement_is_translate [of board_diagonal 0 diagonal 2 300000 140000 20000 0]
  by (simp add: wf_board_def board_defs run_defs)

end
